theory Spec2Isabelle
  imports Complex_Main
begin

section \<open>Conventions of the embedding\<close>

text \<open>
  The repository is TypeScript. Its \<^verbatim>\<open>number\<close> values are modelled as exact reals
  (type \<^typ>\<open>real\<close>); the values NaN and Infinity, and the rounding of doubles, have
  no counterpart here. Type indices (\<^verbatim>\<open>item[1]\<close>) are integers, since they index
  arrays; an array read out of range yields \<^verbatim>\<open>undefined\<close>, modelled as \<open>None\<close>.
  Objects mutated in place become records that the functions return updated. The
  label texts of the default configuration are Chinese in the source and are
  transliterated to ASCII here.
\<close>

definition lookup :: "'a list \<Rightarrow> int \<Rightarrow> 'a option" where
  "lookup xs i = (if 0 \<le> i \<and> i < int (length xs) then Some (xs ! nat i) else None)"

section \<open>canvas\_event.ts: the class Event\<close>

text \<open>
  The payload of \<^verbatim>\<open>emit\<close> is an event object or \<^verbatim>\<open>null\<close>/\<^verbatim>\<open>undefined\<close>
  (\<open>None\<close>); its field \<^verbatim>\<open>type\<close> may itself be absent.
\<close>

record event =
  etype :: "string option"
  ev_clientX :: real
  ev_clientY :: real


text \<open>
  \<^verbatim>\<open>_listener\<close> is a dictionary from event type to an array of handlers. Handlers
  are values of a type \<open>'h\<close> (function references); what a handler does when called is
  given by \<open>invoke\<close>, acting on a state \<open>'s\<close> and either returning the new state or
  throwing.
\<close>

type_synonym 'h EventListeners = "string \<rightharpoonup> 'h list"

definition on :: "'h EventListeners \<Rightarrow> string \<Rightarrow> 'h \<Rightarrow> 'h EventListeners" where
  "on l ty handler =
     (let l1 = (if l ty = None then l(ty \<mapsto> []) else l)
      in case l1 ty of
           Some hs \<Rightarrow> l1(ty \<mapsto> hs @ [handler])
         | None \<Rightarrow> l1)"



definition remove :: "'h EventListeners \<Rightarrow> string \<Rightarrow> 'h option \<Rightarrow> 'h EventListeners" where
  "remove l ty handler =
     (case handler of
        None \<Rightarrow> l(ty \<mapsto> [])
      | Some h \<Rightarrow>
          (case l ty of
             None \<Rightarrow> l
           | Some listeners \<Rightarrow> l(ty \<mapsto> remove1 h listeners)))"

section \<open>sleep\_block.ts: the class SleepWaveBlock\<close>

record Point =
  pt_x :: real
  pt_y :: real

record BlockInfo =
  info_color :: "string option"
  info_title :: "string option"
  info_value :: real

record TooltipData =
  visible :: bool
  pos :: Point
  blockInfo :: BlockInfo

text \<open>
  What a block reaches outside itself: \<^verbatim>\<open>document.body.style.cursor\<close> and the
  tooltip object of its chart (\<^verbatim>\<open>this.canvas.tooltip\<close>).
\<close>

record page =
  cursor :: string
  tooltip :: TooltipData

text \<open>The part of \<^verbatim>\<open>getBoundingClientRect()\<close> that is read.\<close>

record DOMRect =
  rect_left :: real
  rect_top :: real

datatype block_handler = handleClick | handleMouseMove

record SleepWaveBlockOptions =
  startX :: real
  startY :: real
  endX :: real
  endY :: real
  hasStraight :: bool
  nowRadius :: real
  color :: "string option"
  title :: "string option"
  val :: real
  blk_borderRadius :: real
  blk_lineWidth :: real

record SleepWaveBlock = SleepWaveBlockOptions +
  point :: Point
  canvasWidth :: real
  listener :: "block_handler EventListeners"

text \<open>
  The constructor: \<^verbatim>\<open>width\<close> is the canvas width, the options are copied, and the
  two handlers are registered.
\<close>

definition new_SleepWaveBlock :: "real \<Rightarrow> SleepWaveBlockOptions \<Rightarrow> SleepWaveBlock" where
  "new_SleepWaveBlock w opts =
     \<lparr> startX = startX opts, startY = startY opts, endX = endX opts, endY = endY opts,
       hasStraight = hasStraight opts, nowRadius = nowRadius opts,
       color = color opts, title = title opts, val = val opts,
       blk_borderRadius = blk_borderRadius opts, blk_lineWidth = blk_lineWidth opts,
       point = \<lparr> pt_x = 0, pt_y = 0 \<rparr>,
       canvasWidth = w,
       listener = on (on Map.empty ''click'' handleClick) ''mousemove'' handleMouseMove \<rparr>"

definition getEventPosition :: "DOMRect \<Rightarrow> real \<Rightarrow> real \<Rightarrow> Point" where
  "getEventPosition bbox cX cY = \<lparr> pt_x = cX - rect_left bbox, pt_y = cY - rect_top bbox \<rparr>"

text \<open>
  \<^verbatim>\<open>isEventInRegion\<close> returns its boolean together with the block (whose
  \<^verbatim>\<open>point\<close> it overwrites) and the page.
\<close>

definition isEventInRegion ::
  "DOMRect \<Rightarrow> SleepWaveBlock \<Rightarrow> page \<Rightarrow> real \<Rightarrow> real \<Rightarrow> bool \<times> SleepWaveBlock \<times> page" where
  "isEventInRegion bbox b pg cX cY =
     (let p = getEventPosition bbox cX cY;
          b' = b\<lparr> point := p \<rparr>;
          w = endX b' - startX b';
          h = endY b' - startY b'
      in if startX b' < pt_x p \<and> pt_x p < startX b' + w \<and> startY b' < pt_y p \<and> pt_y p < startY b' + h
         then (True, b', pg)
         else (False, b', pg\<lparr> cursor := ''default'', tooltip := (tooltip pg)\<lparr> visible := False \<rparr> \<rparr>))"

section \<open>sleepWave.ts: throttle\<close>

text \<open>
  The closure returned by \<^verbatim>\<open>throttle(func, delay)\<close> owns \<^verbatim>\<open>timeoutId\<close> and
  \<^verbatim>\<open>lastExecTime\<close>. Time is the integer \<^verbatim>\<open>Date.now()\<close> returns (milliseconds).
  The host's timers are kept beside the closure's variables: \<open>timers\<close> holds the
  pending ones (id, due time, captured arguments), \<open>nextTimer\<close> is the id the next
  \<^verbatim>\<open>setTimeout\<close> returns (ids are positive, hence truthy). Each closure has its own
  copy of this host state, which is sound because a closure only ever clears an id it
  was given. \<open>applied\<close> records every \<^verbatim>\<open>func.apply(this, args)\<close>: the time and
  the arguments.
\<close>

record 'a throttled =
  delay :: int
  lastExecTime :: int
  timeoutId :: "nat option"
  nextTimer :: nat
  timers :: "(nat \<times> int \<times> 'a) list"
  applied :: "(int \<times> 'a) list"

definition throttle :: "int \<Rightarrow> 'a throttled" where
  "throttle d =
     \<lparr> delay = d, lastExecTime = 0, timeoutId = None, nextTimer = 1, timers = [], applied = [] \<rparr>"

definition clearTimeout :: "nat \<Rightarrow> (nat \<times> int \<times> 'a) list \<Rightarrow> (nat \<times> int \<times> 'a) list" where
  "clearTimeout i ts = filter (\<lambda>t. fst t \<noteq> i) ts"

text \<open>One call of the returned function at time \<open>currentTime\<close>.\<close>

definition throttled :: "'a throttled \<Rightarrow> int \<Rightarrow> 'a \<Rightarrow> 'a throttled" where
  "throttled th currentTime args =
     (if currentTime - lastExecTime th > delay th
      then th\<lparr> applied := applied th @ [(currentTime, args)], lastExecTime := currentTime \<rparr>
      else
        (let ts = (case timeoutId th of None \<Rightarrow> timers th | Some i \<Rightarrow> clearTimeout i (timers th));
             i = nextTimer th
         in th\<lparr> timers := ts @ [(i, currentTime + (delay th - (currentTime - lastExecTime th)), args)],
                timeoutId := Some i,
                nextTimer := i + 1 \<rparr>))"





section \<open>sleepWave.ts: the class SleepWave\<close>

text \<open>
  The canvas element: its size and the listeners attached to it, each a pair of event
  name and throttled closure. Every call of \<^verbatim>\<open>throttle\<close> returns a new function, so
  \<^verbatim>\<open>addEventListener\<close> never meets a listener it already holds.
\<close>

record surface =
  width :: real
  height :: real
  listeners :: "(string \<times> event throttled) list"

definition addEventListener :: "surface \<Rightarrow> string \<Rightarrow> event throttled \<Rightarrow> surface" where
  "addEventListener s eventName l = s\<lparr> listeners := listeners s @ [(eventName, l)] \<rparr>"


text \<open>The connector between two blocks: the values its path and gradient are built from.\<close>

record connector =
  conn_dir :: bool
  conn_lineX :: real
  conn_lineStartY :: real
  conn_lineEndY :: real
  conn_from :: "string option"
  conn_to :: "string option"
  conn_preRadius :: real
  conn_nowRadius :: real
  conn_borderRadius :: real
  conn_lineWidth :: real

text \<open>What has been painted on the canvas since it was last cleared, shape by shape.\<close>

datatype paint =
    Axes string real real real
  | Label string real real
  | BlockShape SleepWaveBlock
  | ConnectorShape connector

record SleepWaveOptions =
  opt_sleepData :: "(real \<times> int) list option"
  opt_Xmax :: "real option"
  opt_Xmin :: "real option"
  opt_sleepType :: "string list option"
  opt_sleepColor :: "string list option"
  opt_axisColor :: "string option"
  opt_axisYwidth :: "real option"
  opt_axisXheight :: "real option"
  opt_borderRadius :: "real option"
  opt_lineWidth :: "real option"

record SleepWave =
  canvas :: "surface option"
  ctx :: "paint list option"
  children :: "SleepWaveBlock list"
  sleepType :: "string list"
  sleepColor :: "string list"
  sleepData :: "(real \<times> int) list"
  axisColor :: string
  axisYwidth :: real
  axisXheight :: real
  Xmax :: real
  Xmin :: real
  Xdis :: real
  Ydis :: real
  borderRadius :: real
  lineWidth :: real

definition eventList :: "string list" where
  "eventList = [''click'', ''mousemove'']"

definition new_SleepWave :: SleepWave where
  "new_SleepWave =
     \<lparr> canvas = None, ctx = None, children = [],
       sleepType = [''shen shui'', ''qian shui'', ''yan dong'', ''qing xing''],
       sleepColor = [''#FFB9E4'', ''#D3B4FF'', ''#9345FF'', ''#5701CD''],
       sleepData = [],
       axisColor = ''#EAEAEA'', axisYwidth = 50, axisXheight = 20,
       Xmax = 800, Xmin = 0, Xdis = 1, Ydis = 1,
       borderRadius = 12, lineWidth = 2 \<rparr>"

definition initTooltip :: TooltipData where
  "initTooltip =
     \<lparr> visible = False, pos = \<lparr> pt_x = 0, pt_y = 0 \<rparr>,
       blockInfo = \<lparr> info_color = Some [], info_title = Some [], info_value = 0 \<rparr> \<rparr>"

text \<open>\<^verbatim>\<open>init\<close>, given \<^verbatim>\<open>dom.clientWidth\<close> and \<^verbatim>\<open>dom.clientHeight\<close>.\<close>

definition init :: "real \<Rightarrow> real \<Rightarrow> SleepWave \<Rightarrow> SleepWave" where
  "init w h c = c\<lparr> canvas := Some \<lparr> width = w, height = h, listeners = [] \<rparr>, ctx := Some [] \<rparr>"

text \<open>
  \<^verbatim>\<open>Object.assign(this, option)\<close>: a field the option object has overwrites the
  chart's, a field it lacks (\<open>None\<close>) leaves the chart's as it is.
\<close>

definition or_keep :: "'a option \<Rightarrow> 'a \<Rightarrow> 'a" where
  "or_keep v old = (case v of Some x \<Rightarrow> x | None \<Rightarrow> old)"

definition assign :: "SleepWave \<Rightarrow> SleepWaveOptions \<Rightarrow> SleepWave" where
  "assign c option =
     c\<lparr> sleepData := or_keep (opt_sleepData option) (sleepData c),
        Xmax := or_keep (opt_Xmax option) (Xmax c),
        Xmin := or_keep (opt_Xmin option) (Xmin c),
        sleepType := or_keep (opt_sleepType option) (sleepType c),
        sleepColor := or_keep (opt_sleepColor option) (sleepColor c),
        axisColor := or_keep (opt_axisColor option) (axisColor c),
        axisYwidth := or_keep (opt_axisYwidth option) (axisYwidth c),
        axisXheight := or_keep (opt_axisXheight option) (axisXheight c),
        borderRadius := or_keep (opt_borderRadius option) (borderRadius c),
        lineWidth := or_keep (opt_lineWidth option) (lineWidth c) \<rparr>"

definition updateProperties :: "SleepWave \<Rightarrow> SleepWave" where
  "updateProperties c =
     (case canvas c of
        None \<Rightarrow> c
      | Some s \<Rightarrow>
          (let c1 = c\<lparr> Xdis := (width s - axisYwidth c) / (Xmax c - Xmin c) \<rparr>;
               c2 = c1\<lparr> Ydis := (height s - axisXheight c1) / 4 \<rparr>
           in c2\<lparr> borderRadius := min (Ydis c2 / 4) (borderRadius c2) \<rparr>))"

definition initEvent :: "SleepWave \<Rightarrow> SleepWave" where
  "initEvent c =
     (case canvas c of
        None \<Rightarrow> c
      | Some s \<Rightarrow>
          c\<lparr> canvas := Some (fold (\<lambda>eventName s'. addEventListener s' eventName (throttle 50)) eventList s) \<rparr>)"

text \<open>
  One turn of the callback of \<^verbatim>\<open>sleepData.reduce\<close> in \<^verbatim>\<open>draw\<close>: from the value
  carried (\<^verbatim>\<open>pre\<close>: end x, type index and radius of the previous block, or
  \<^verbatim>\<open>null\<close>) and the item, the block created, the connector painted if any, and the
  value carried on. \<open>w\<close> is the canvas width the block's constructor reads.
\<close>

definition draw_item ::
  "SleepWave \<Rightarrow> real \<Rightarrow> (real \<times> int \<times> real) option \<Rightarrow> real \<times> int
     \<Rightarrow> SleepWaveBlock \<times> connector option \<times> (real \<times> int \<times> real)" where
  "draw_item c w pre item =
     (let sx = (case pre of Some p \<Rightarrow> fst p | None \<Rightarrow> axisYwidth c);
          ex = sx + fst item * Xdis c;
          sy = of_int (snd item) * Ydis c + borderRadius c;
          ey = sy + Ydis c - 2 * borderRadius c;
          straight = (ex - sx > 2 * borderRadius c);
          radius = (if straight then borderRadius c else (ex - sx) / 2);
          block = new_SleepWaveBlock w
            \<lparr> startX = sx, startY = sy, endX = ex, endY = ey,
              hasStraight = straight, nowRadius = radius,
              color = lookup (sleepColor c) (snd item),
              title = lookup (sleepType c) (snd item),
              val = fst item,
              blk_borderRadius = borderRadius c, blk_lineWidth = lineWidth c \<rparr>;
          conn =
            (case pre of
               None \<Rightarrow> None
             | Some p \<Rightarrow>
                 if fst (snd p) \<noteq> snd item
                 then
                   (let d = (fst (snd p) > snd item);
                        lineStartY =
                          (if d then of_int (fst (snd p)) * Ydis c + borderRadius c
                           else (of_int (fst (snd p)) + 1) * Ydis c - borderRadius c);
                        lineEndY = (if d then ey else sy)
                    in Some \<lparr> conn_dir = d, conn_lineX = sx,
                              conn_lineStartY = lineStartY, conn_lineEndY = lineEndY,
                              conn_from = lookup (sleepColor c) (fst (snd p)),
                              conn_to = lookup (sleepColor c) (snd item),
                              conn_preRadius = snd (snd p), conn_nowRadius = radius,
                              conn_borderRadius = borderRadius c,
                              conn_lineWidth = lineWidth c \<rparr>)
                 else None)
      in (block, conn, (ex, snd item, radius)))"

text \<open>The reduce itself: the list of what each turn produced.\<close>

fun layout ::
  "SleepWave \<Rightarrow> real \<Rightarrow> (real \<times> int \<times> real) option \<Rightarrow> (real \<times> int) list
     \<Rightarrow> (SleepWaveBlock \<times> connector option) list" where
  "layout c w pre [] = []"
| "layout c w pre (item # rest) =
     (case draw_item c w pre item of
        (block, conn, carried) \<Rightarrow> (block, conn) # layout c w (Some carried) rest)"

definition paint_item :: "SleepWaveBlock \<times> connector option \<Rightarrow> paint list" where
  "paint_item out =
     BlockShape (fst out) # (case snd out of None \<Rightarrow> [] | Some k \<Rightarrow> [ConnectorShape k])"

definition draw :: "SleepWave \<Rightarrow> SleepWave" where
  "draw c =
     (case ctx c of
        None \<Rightarrow> c
      | Some g \<Rightarrow>
          (case canvas c of
             None \<Rightarrow> c
           | Some s \<Rightarrow>
               (let outs = layout c (width s) None (sleepData c)
                in c\<lparr> children := map fst outs,
                      ctx := Some (g
                        @ [Axes (axisColor c) (axisYwidth c - 2) (height s - axisXheight c) (width s)]
                        @ map (\<lambda>il. Label (snd il) 4 (Ydis c * (real (fst il) + 0.5)))
                            (enumerate 0 (sleepType c))
                        @ concat (map paint_item outs)) \<rparr>)))"

definition clearRect :: "SleepWave \<Rightarrow> SleepWave" where
  "clearRect c = c\<lparr> ctx := Some [] \<rparr>"

definition setOption :: "SleepWaveOptions \<Rightarrow> SleepWave \<Rightarrow> SleepWave" where
  "setOption option c =
     (if ctx c = None \<or> canvas c = None then c
      else initEvent (draw (updateProperties (assign (clearRect c) option))))"

section \<open>Notions used in the statements\<close>

text \<open>The connectors among the shapes on the canvas, in the order they were painted.\<close>

definition painted_connectors :: "paint list \<Rightarrow> connector list" where
  "painted_connectors g = concat (map (\<lambda>p. case p of ConnectorShape k \<Rightarrow> [k] | _ \<Rightarrow> []) g)"

text \<open>The number of adjacent pairs of items whose type indices differ.\<close>

definition type_changes :: "(real \<times> int) list \<Rightarrow> nat" where
  "type_changes items = length (filter (\<lambda>ab. snd (fst ab) \<noteq> snd (snd ab)) (zip items (tl items)))"




section \<open>Sample inputs\<close>

text \<open>A block spanning x from 50 to 150 and y from 12 to 58, a page, and a canvas box.\<close>

definition example_block :: SleepWaveBlock where
  "example_block = new_SleepWaveBlock 800
     \<lparr> startX = 50, startY = 12, endX = 150, endY = 58, hasStraight = True, nowRadius = 12,
       color = Some ''#FFB9E4'', title = Some ''shen shui'', val = 100,
       blk_borderRadius = 12, blk_lineWidth = 2 \<rparr>"

definition example_page :: page where
  "example_page = \<lparr> cursor = ''pointer'', tooltip = initTooltip\<lparr> visible := True \<rparr> \<rparr>"

definition example_bbox :: DOMRect where
  "example_bbox = \<lparr> rect_left = 8, rect_top = 8 \<rparr>"



definition move_event :: event where
  "move_event = \<lparr> etype = Some ''mousemove'', ev_clientX = 60, ev_clientY = 30 \<rparr>"

text \<open>
  The default chart initialised on a container of 800 by 300, and option objects:
  the empty one, two items of sleep data, and two labels with two colours.
\<close>

definition example_chart :: SleepWave where
  "example_chart = init 800 300 new_SleepWave"

definition no_option :: SleepWaveOptions where
  "no_option =
     \<lparr> opt_sleepData = None, opt_Xmax = None, opt_Xmin = None, opt_sleepType = None,
       opt_sleepColor = None, opt_axisColor = None, opt_axisYwidth = None,
       opt_axisXheight = None, opt_borderRadius = None, opt_lineWidth = None \<rparr>"

definition example_option :: SleepWaveOptions where
  "example_option = no_option\<lparr> opt_sleepData := Some [(120, 0), (80, 1)] \<rparr>"

definition two_label_option :: SleepWaveOptions where
  "two_label_option =
     no_option\<lparr> opt_sleepType := Some [''asleep'', ''awake''],
                opt_sleepColor := Some [''#D3B4FF'', ''#5701CD''] \<rparr>"







text \<open>
  Two option objects for one chart: the first asks for a radius of 100 on lanes made
  40 high by a bottom inset of 140, the second only resets the inset to 20.
\<close>

definition tall_inset_option :: SleepWaveOptions where
  "tall_inset_option = no_option\<lparr> opt_borderRadius := Some 100, opt_axisXheight := Some 140 \<rparr>"

definition low_inset_option :: SleepWaveOptions where
  "low_inset_option = no_option\<lparr> opt_axisXheight := Some 20 \<rparr>"

section \<open>Hit-testing of a block\<close>

lemma example_block_geometry [simp]:
  "startX example_block = 50" "endX example_block = 150"
  "startY example_block = 12" "endY example_block = 58"
  by (simp_all add: example_block_def new_SleepWaveBlock_def)

text \<open>
  Claim C1 says that \<^verbatim>\<open>isEventInRegion\<close> is true exactly on the half-open box
  \<open>[startX, startX+width) \<times> [startY, startY+height)\<close> of the canvas-local point. The
  source compares with \<^verbatim>\<open><\<close> on all four sides. For the sample block (x from 50 to
  150, y from 12 to 58) under a canvas whose box starts at (8, 8), the pointer at
  (58, 28) is the local point (50, 20): it lies on the left edge, inside the half-open
  box, and the call returns false.
\<close>

theorem isEventInRegion_left_edge_counterexample:
  "\<not> (fst (isEventInRegion example_bbox example_block example_page 58 28)
       = (startX example_block \<le> 58 - rect_left example_bbox
          \<and> 58 - rect_left example_bbox < startX example_block + (endX example_block - startX example_block)
          \<and> startY example_block \<le> 28 - rect_top example_bbox
          \<and> 28 - rect_top example_bbox < startY example_block + (endY example_block - startY example_block)))"
  by (simp add: isEventInRegion_def getEventPosition_def example_bbox_def Let_def)

text \<open>
  Claim C1, amended: for every block and every pointer coordinate,
  \<^verbatim>\<open>isEventInRegion\<close> subtracts the offset of the canvas's bounding box and returns true
  exactly when the local point lies in the open box
  \<open>(startX, startX+width) \<times> (startY, startY+height)\<close>, with width = endX - startX and
  height = endY - startY; a point with x = startX + width returns false, and so does a
  point with x = startX.
\<close>

theorem isEventInRegion_open_box:
  "fst (isEventInRegion bbox b pg cX cY) =
     (startX b < cX - rect_left bbox \<and> cX - rect_left bbox < startX b + (endX b - startX b)
      \<and> startY b < cY - rect_top bbox \<and> cY - rect_top bbox < startY b + (endY b - startY b))
   \<and> \<not> fst (isEventInRegion bbox b pg (rect_left bbox + (startX b + (endX b - startX b))) cY)
   \<and> \<not> fst (isEventInRegion bbox b pg (rect_left bbox + startX b) cY)"
  by (simp add: isEventInRegion_def getEventPosition_def Let_def)

theorem isEventInRegion_open_box_witness:
  "fst (isEventInRegion example_bbox example_block example_page 60 30)
   \<and> \<not> fst (isEventInRegion example_bbox example_block example_page 158 30)
   \<and> \<not> fst (isEventInRegion example_bbox example_block example_page 58 30)"
  using isEventInRegion_open_box [of example_bbox example_block example_page 60 30]
    isEventInRegion_open_box [of example_bbox example_block example_page 158 30]
  by (simp add: example_bbox_def)

text \<open>
  Claim C7: when \<^verbatim>\<open>isEventInRegion\<close> returns false, the same call has set the cursor
  to \<^verbatim>\<open>default\<close> and the tooltip's \<^verbatim>\<open>visible\<close> to false; when it returns true, the
  cursor and the whole tooltip state (visible, position, content) are as they were.
\<close>

theorem isEventInRegion_effects:
  "(\<not> fst (isEventInRegion bbox b pg cX cY) \<longrightarrow>
      cursor (snd (snd (isEventInRegion bbox b pg cX cY))) = ''default''
      \<and> visible (tooltip (snd (snd (isEventInRegion bbox b pg cX cY)))) = False)
   \<and> (fst (isEventInRegion bbox b pg cX cY) \<longrightarrow>
      snd (snd (isEventInRegion bbox b pg cX cY)) = pg)"
  by (simp add: isEventInRegion_def Let_def)

theorem isEventInRegion_effects_witness:
  "\<not> fst (isEventInRegion example_bbox example_block example_page 300 30)
   \<and> cursor example_page = ''pointer'' \<and> visible (tooltip example_page)
   \<and> cursor (snd (snd (isEventInRegion example_bbox example_block example_page 300 30))) = ''default''
   \<and> visible (tooltip (snd (snd (isEventInRegion example_bbox example_block example_page 300 30)))) = False
   \<and> fst (isEventInRegion example_bbox example_block example_page 60 30)
   \<and> snd (snd (isEventInRegion example_bbox example_block example_page 60 30)) = example_page"
proof -
  have out: "\<not> fst (isEventInRegion example_bbox example_block example_page 300 30)"
    by (simp add: isEventInRegion_def getEventPosition_def example_bbox_def Let_def)
  have inside: "fst (isEventInRegion example_bbox example_block example_page 60 30)"
    by (simp add: isEventInRegion_def getEventPosition_def example_bbox_def Let_def)
  have pg: "cursor example_page = ''pointer'' \<and> visible (tooltip example_page)"
    by (simp add: example_page_def)
  from out inside pg
    isEventInRegion_effects [of example_bbox example_block example_page 300 30]
    isEventInRegion_effects [of example_bbox example_block example_page 60 30]
  show ?thesis by simp
qed

section \<open>The event registry\<close>







section \<open>Scale and layout of the chart\<close>

lemma assign_frame [simp]:
  "canvas (assign c option) = canvas c"
  "ctx (assign c option) = ctx c"
  "children (assign c option) = children c"
  "Xdis (assign c option) = Xdis c"
  "Ydis (assign c option) = Ydis c"
  by (simp_all add: assign_def)

lemma updateProperties_frame [simp]:
  "canvas (updateProperties c) = canvas c"
  "ctx (updateProperties c) = ctx c"
  "children (updateProperties c) = children c"
  "sleepData (updateProperties c) = sleepData c"
  "sleepType (updateProperties c) = sleepType c"
  "sleepColor (updateProperties c) = sleepColor c"
  "axisColor (updateProperties c) = axisColor c"
  "axisYwidth (updateProperties c) = axisYwidth c"
  "axisXheight (updateProperties c) = axisXheight c"
  "Xmax (updateProperties c) = Xmax c"
  "Xmin (updateProperties c) = Xmin c"
  "lineWidth (updateProperties c) = lineWidth c"
  by (simp_all add: updateProperties_def Let_def split: option.splits)

lemma updateProperties_scale:
  "canvas c = Some s \<Longrightarrow> Xdis (updateProperties c) = (width s - axisYwidth c) / (Xmax c - Xmin c)"
  "canvas c = Some s \<Longrightarrow> Ydis (updateProperties c) = (height s - axisXheight c) / 4"
  "canvas c = Some s \<Longrightarrow>
     borderRadius (updateProperties c) = min ((height s - axisXheight c) / 4 / 4) (borderRadius c)"
  by (simp_all add: updateProperties_def Let_def)

lemma draw_frame [simp]:
  "canvas (draw c) = canvas c"
  "sleepData (draw c) = sleepData c"
  "sleepType (draw c) = sleepType c"
  "sleepColor (draw c) = sleepColor c"
  "axisColor (draw c) = axisColor c"
  "axisYwidth (draw c) = axisYwidth c"
  "axisXheight (draw c) = axisXheight c"
  "Xmax (draw c) = Xmax c"
  "Xmin (draw c) = Xmin c"
  "Xdis (draw c) = Xdis c"
  "Ydis (draw c) = Ydis c"
  "borderRadius (draw c) = borderRadius c"
  "lineWidth (draw c) = lineWidth c"
  by (simp_all add: draw_def Let_def split: option.splits)

lemma draw_children:
  "ctx c = Some g \<Longrightarrow> canvas c = Some s \<Longrightarrow>
   children (draw c) = map fst (layout c (width s) None (sleepData c))"
  by (simp add: draw_def Let_def)

lemma initEvent_frame [simp]:
  "ctx (initEvent c) = ctx c"
  "children (initEvent c) = children c"
  "sleepData (initEvent c) = sleepData c"
  "sleepType (initEvent c) = sleepType c"
  "sleepColor (initEvent c) = sleepColor c"
  "axisColor (initEvent c) = axisColor c"
  "axisYwidth (initEvent c) = axisYwidth c"
  "axisXheight (initEvent c) = axisXheight c"
  "Xmax (initEvent c) = Xmax c"
  "Xmin (initEvent c) = Xmin c"
  "Xdis (initEvent c) = Xdis c"
  "Ydis (initEvent c) = Ydis c"
  "borderRadius (initEvent c) = borderRadius c"
  "lineWidth (initEvent c) = lineWidth c"
  by (simp_all add: initEvent_def split: option.splits)

lemma fold_addEventListener:
  "fold (\<lambda>eventName s'. addEventListener s' eventName l) names s
     = s\<lparr> listeners := listeners s @ map (\<lambda>n. (n, l)) names \<rparr>"
  by (induction names arbitrary: s) (simp_all add: addEventListener_def)

lemma initEvent_canvas:
  "canvas c = Some s \<Longrightarrow>
   canvas (initEvent c)
     = Some (s\<lparr> listeners := listeners s @ [(''click'', throttle 50), (''mousemove'', throttle 50)] \<rparr>)"
  by (simp add: initEvent_def eventList_def addEventListener_def)

lemma setOption_unfold:
  "ctx c = Some g \<Longrightarrow> canvas c = Some s \<Longrightarrow>
   setOption option c = initEvent (draw (updateProperties (assign (clearRect c) option)))"
  by (simp add: setOption_def)

text \<open>
  Claim C2 says that \<^verbatim>\<open>Ydis\<close> is the drawing height divided by the number of type
  labels. \<^verbatim>\<open>updateProperties\<close> divides by the literal 4. With two labels and two
  colours on the 800 by 300 canvas (bottom inset 20), \<^verbatim>\<open>setOption\<close> leaves
  \<^verbatim>\<open>Ydis\<close> at 70, where 280 / 2 is 140.
\<close>

theorem yScale_two_labels:
  "length (sleepType (setOption two_label_option example_chart)) = 2
   \<and> Ydis (setOption two_label_option example_chart) = 70
   \<and> (300 - axisXheight (setOption two_label_option example_chart))
        / real (length (sleepType (setOption two_label_option example_chart))) = 140"
  by (simp add: setOption_def example_chart_def init_def new_SleepWave_def clearRect_def
      updateProperties_scale two_label_option_def no_option_def assign_def or_keep_def)

lemma draw_item_block:
  "startX (fst (draw_item c w pre item)) = (case pre of Some p \<Rightarrow> fst p | None \<Rightarrow> axisYwidth c)"
  "endX (fst (draw_item c w pre item)) = startX (fst (draw_item c w pre item)) + fst item * Xdis c"
  "startY (fst (draw_item c w pre item)) = of_int (snd item) * Ydis c + borderRadius c"
  "endY (fst (draw_item c w pre item))
     = startY (fst (draw_item c w pre item)) + Ydis c - 2 * borderRadius c"
  "hasStraight (fst (draw_item c w pre item))
     = (endX (fst (draw_item c w pre item)) - startX (fst (draw_item c w pre item))
          > 2 * borderRadius c)"
  "nowRadius (fst (draw_item c w pre item))
     = (if hasStraight (fst (draw_item c w pre item)) then borderRadius c
        else (endX (fst (draw_item c w pre item)) - startX (fst (draw_item c w pre item))) / 2)"
  by (simp_all add: draw_item_def new_SleepWaveBlock_def Let_def)

lemma draw_item_carried:
  "fst (snd (snd (draw_item c w pre item))) = endX (fst (draw_item c w pre item))"
  "fst (snd (snd (snd (draw_item c w pre item)))) = snd item"
  by (simp_all add: draw_item_def new_SleepWaveBlock_def Let_def)

lemma draw_item_connector:
  "(fst (snd (draw_item c w pre item)) = None)
     = (case pre of None \<Rightarrow> True | Some p \<Rightarrow> fst (snd p) = snd item)"
  by (simp add: draw_item_def Let_def split: option.splits)

lemma layout_Cons:
  "layout c w pre (item # rest)
     = (fst (draw_item c w pre item), fst (snd (draw_item c w pre item)))
       # layout c w (Some (snd (snd (draw_item c w pre item)))) rest"
  by (simp split: prod.splits)

lemma length_layout [simp]: "length (layout c w pre items) = length items"
  by (induction items arbitrary: pre) (simp_all add: layout_Cons del: layout.simps(2))







lemma painted_connectors_append [simp]:
  "painted_connectors (g @ g') = painted_connectors g @ painted_connectors g'"
  by (simp add: painted_connectors_def)

lemma painted_connectors_simps [simp]:
  "painted_connectors [] = []"
  "painted_connectors (Axes a x y w # g) = painted_connectors g"
  "painted_connectors (Label l x y # g) = painted_connectors g"
  "painted_connectors (BlockShape b # g) = painted_connectors g"
  "painted_connectors (ConnectorShape k # g) = k # painted_connectors g"
  by (simp_all add: painted_connectors_def)

lemma painted_connectors_labels [simp]:
  "painted_connectors (map (\<lambda>il. Label (f il) x (y il)) ls) = []"
  by (induction ls) simp_all

lemma painted_connectors_items:
  "length (painted_connectors (concat (map paint_item outs)))
     = length (filter (\<lambda>out. snd out \<noteq> None) outs)"
  by (induction outs) (auto simp add: paint_item_def)

lemma layout_connector_count:
  "length (filter (\<lambda>out. snd out \<noteq> None) (layout c w pre items))
     = (case pre of
          None \<Rightarrow> 0
        | Some p \<Rightarrow> (case items of [] \<Rightarrow> 0 | item # _ \<Rightarrow> if fst (snd p) \<noteq> snd item then 1 else 0))
       + type_changes items"
proof (induction items arbitrary: pre)
  case Nil
  then show ?case by (simp add: type_changes_def split: option.splits)
next
  case (Cons item rest)
  have tc: "type_changes (item # rest)
      = (case rest of [] \<Rightarrow> 0 | nxt # _ \<Rightarrow> if snd item \<noteq> snd nxt then 1 else 0) + type_changes rest"
    by (cases rest) (simp_all add: type_changes_def)
  have here: "(fst (snd (draw_item c w pre item)) \<noteq> None)
      = (case pre of None \<Rightarrow> False | Some p \<Rightarrow> fst (snd p) \<noteq> snd item)"
    using draw_item_connector [of c w pre item] by (simp split: option.splits)
  from Cons.IH [of "Some (snd (snd (draw_item c w pre item)))"] here tc show ?case
    by (simp add: layout_Cons draw_item_carried del: layout.simps(2) split: option.splits list.splits)
qed

lemma draw_item_cong:
  assumes "axisYwidth c = axisYwidth c'" "Xdis c = Xdis c'" "Ydis c = Ydis c'"
    "borderRadius c = borderRadius c'" "lineWidth c = lineWidth c'"
    "sleepColor c = sleepColor c'" "sleepType c = sleepType c'"
  shows "draw_item c w pre item = draw_item c' w pre item"
  unfolding draw_item_def assms by (rule refl)

lemma layout_cong:
  assumes "axisYwidth c = axisYwidth c'" "Xdis c = Xdis c'" "Ydis c = Ydis c'"
    "borderRadius c = borderRadius c'" "lineWidth c = lineWidth c'"
    "sleepColor c = sleepColor c'" "sleepType c = sleepType c'"
  shows "layout c w pre items = layout c' w pre items"
proof (induction items arbitrary: pre)
  case Nil
  show ?case by simp
next
  case (Cons item rest)
  from draw_item_cong [OF assms, of w pre item] Cons.IH show ?case
    by (simp add: layout_Cons del: layout.simps(2))
qed

lemma clearRect_frame [simp]:
  "ctx (clearRect c) = Some []"
  "canvas (clearRect c) = canvas c"
  "sleepData (clearRect c) = sleepData c"
  "sleepType (clearRect c) = sleepType c"
  "sleepColor (clearRect c) = sleepColor c"
  "axisColor (clearRect c) = axisColor c"
  "axisYwidth (clearRect c) = axisYwidth c"
  "axisXheight (clearRect c) = axisXheight c"
  "Xmax (clearRect c) = Xmax c"
  "Xmin (clearRect c) = Xmin c"
  "borderRadius (clearRect c) = borderRadius c"
  "lineWidth (clearRect c) = lineWidth c"
  by (simp_all add: clearRect_def)

lemma assign_fields:
  "sleepData (assign c option) = or_keep (opt_sleepData option) (sleepData c)"
  "Xmax (assign c option) = or_keep (opt_Xmax option) (Xmax c)"
  "Xmin (assign c option) = or_keep (opt_Xmin option) (Xmin c)"
  "sleepType (assign c option) = or_keep (opt_sleepType option) (sleepType c)"
  "sleepColor (assign c option) = or_keep (opt_sleepColor option) (sleepColor c)"
  "axisColor (assign c option) = or_keep (opt_axisColor option) (axisColor c)"
  "axisYwidth (assign c option) = or_keep (opt_axisYwidth option) (axisYwidth c)"
  "axisXheight (assign c option) = or_keep (opt_axisXheight option) (axisXheight c)"
  "borderRadius (assign c option) = or_keep (opt_borderRadius option) (borderRadius c)"
  "lineWidth (assign c option) = or_keep (opt_lineWidth option) (lineWidth c)"
  by (simp_all add: assign_def)

lemma or_keep_idem [simp]: "or_keep v (or_keep v old) = or_keep v old"
  by (simp add: or_keep_def split: option.splits)

text \<open>The chart as \<^verbatim>\<open>draw\<close> finds it inside \<^verbatim>\<open>setOption\<close>.\<close>

lemma setOption_fields:
  assumes "ctx c = Some g" "canvas c = Some s"
  shows "canvas (setOption option c)
      = Some (s\<lparr> listeners := listeners s @ [(''click'', throttle 50), (''mousemove'', throttle 50)] \<rparr>)"
    and "sleepData (setOption option c) = or_keep (opt_sleepData option) (sleepData c)"
    and "sleepType (setOption option c) = or_keep (opt_sleepType option) (sleepType c)"
    and "sleepColor (setOption option c) = or_keep (opt_sleepColor option) (sleepColor c)"
    and "axisYwidth (setOption option c) = or_keep (opt_axisYwidth option) (axisYwidth c)"
    and "axisXheight (setOption option c) = or_keep (opt_axisXheight option) (axisXheight c)"
    and "Xmax (setOption option c) = or_keep (opt_Xmax option) (Xmax c)"
    and "Xmin (setOption option c) = or_keep (opt_Xmin option) (Xmin c)"
    and "lineWidth (setOption option c) = or_keep (opt_lineWidth option) (lineWidth c)"
    and "Xdis (setOption option c)
      = (width s - or_keep (opt_axisYwidth option) (axisYwidth c))
        / (or_keep (opt_Xmax option) (Xmax c) - or_keep (opt_Xmin option) (Xmin c))"
    and "Ydis (setOption option c)
      = (height s - or_keep (opt_axisXheight option) (axisXheight c)) / 4"
    and "borderRadius (setOption option c)
      = min (Ydis (setOption option c) / 4) (or_keep (opt_borderRadius option) (borderRadius c))"
    and "children (setOption option c)
      = map fst (layout (setOption option c) (width s) None (sleepData (setOption option c)))"
proof -
  let ?u = "updateProperties (assign (clearRect c) option)"
  have so: "setOption option c = initEvent (draw ?u)"
    using assms by (simp add: setOption_def)
  have cv: "canvas (assign (clearRect c) option) = Some s"
    using assms by simp
  show "canvas (setOption option c)
      = Some (s\<lparr> listeners := listeners s @ [(''click'', throttle 50), (''mousemove'', throttle 50)] \<rparr>)"
    using assms by (simp add: so initEvent_canvas)
  show "sleepData (setOption option c) = or_keep (opt_sleepData option) (sleepData c)"
    by (simp add: so assign_fields)
  show "sleepType (setOption option c) = or_keep (opt_sleepType option) (sleepType c)"
    by (simp add: so assign_fields)
  show "sleepColor (setOption option c) = or_keep (opt_sleepColor option) (sleepColor c)"
    by (simp add: so assign_fields)
  show "axisYwidth (setOption option c) = or_keep (opt_axisYwidth option) (axisYwidth c)"
    by (simp add: so assign_fields)
  show "axisXheight (setOption option c) = or_keep (opt_axisXheight option) (axisXheight c)"
    by (simp add: so assign_fields)
  show "Xmax (setOption option c) = or_keep (opt_Xmax option) (Xmax c)"
    by (simp add: so assign_fields)
  show "Xmin (setOption option c) = or_keep (opt_Xmin option) (Xmin c)"
    by (simp add: so assign_fields)
  show "lineWidth (setOption option c) = or_keep (opt_lineWidth option) (lineWidth c)"
    by (simp add: so assign_fields)
  show "Xdis (setOption option c)
      = (width s - or_keep (opt_axisYwidth option) (axisYwidth c))
        / (or_keep (opt_Xmax option) (Xmax c) - or_keep (opt_Xmin option) (Xmin c))"
    by (simp add: so updateProperties_scale(1) [OF cv] assign_fields)
  show yd: "Ydis (setOption option c)
      = (height s - or_keep (opt_axisXheight option) (axisXheight c)) / 4"
    by (simp add: so updateProperties_scale(2) [OF cv] assign_fields)
  show "borderRadius (setOption option c)
      = min (Ydis (setOption option c) / 4) (or_keep (opt_borderRadius option) (borderRadius c))"
    by (simp add: yd) (simp add: so updateProperties_scale(3) [OF cv] assign_fields)
  have "children (setOption option c) = map fst (layout ?u (width s) None (sleepData ?u))"
    using assms by (simp add: so draw_children [of ?u "[]" s])
  also have "layout ?u (width s) None (sleepData ?u)
      = layout (setOption option c) (width s) None (sleepData ?u)"
    by (rule layout_cong) (simp_all add: so)
  finally show "children (setOption option c)
      = map fst (layout (setOption option c) (width s) None (sleepData (setOption option c)))"
    by (simp add: so)
qed

lemma setOption_ctx:
  assumes "ctx c = Some g" "canvas c = Some s"
  shows "\<exists>g'. ctx (setOption option c) = Some g'
    \<and> length (painted_connectors g') = type_changes (sleepData (setOption option c))"
proof -
  let ?u = "updateProperties (assign (clearRect c) option)"
  have so: "setOption option c = initEvent (draw ?u)"
    using assms by (simp add: setOption_def)
  have cv: "canvas ?u = Some s" "ctx ?u = Some []"
    using assms by simp_all
  let ?outs = "layout ?u (width s) None (sleepData ?u)"
  have "ctx (draw ?u) = Some ([]
          @ [Axes (axisColor ?u) (axisYwidth ?u - 2) (height s - axisXheight ?u) (width s)]
          @ map (\<lambda>il. Label (snd il) 4 (Ydis ?u * (real (fst il) + 0.5))) (enumerate 0 (sleepType ?u))
          @ concat (map paint_item ?outs))"
    using cv by (simp add: draw_def Let_def)
  moreover have "length (filter (\<lambda>out. snd out \<noteq> None) ?outs) = type_changes (sleepData ?u)"
    using layout_connector_count [of ?u "width s" None "sleepData ?u"] by simp
  ultimately show ?thesis
    by (simp add: so painted_connectors_items)
qed

lemma example_chart_fields [simp]:
  "ctx example_chart = Some []"
  "canvas example_chart = Some \<lparr> width = 800, height = 300, listeners = [] \<rparr>"
  "sleepData example_chart = []"
  "axisYwidth example_chart = 50"
  "axisXheight example_chart = 20"
  "Xmax example_chart = 800"
  "Xmin example_chart = 0"
  "borderRadius example_chart = 12"
  "lineWidth example_chart = 2"
  "sleepType example_chart = [''shen shui'', ''qian shui'', ''yan dong'', ''qing xing'']"
  "sleepColor example_chart = [''#FFB9E4'', ''#D3B4FF'', ''#9345FF'', ''#5701CD'']"
  by (simp_all add: example_chart_def init_def new_SleepWave_def)










text \<open>
  A remark on the configured radius: \<^verbatim>\<open>updateProperties\<close> writes the capped value
  back into \<^verbatim>\<open>borderRadius\<close>, so a later call that supplies no radius starts from
  the capped one. After a radius of 100 was capped to 10 on lanes 40 high, resetting
  the inset gives lanes 70 high, a quarter of which is 17.5, and the radius stays 10.
\<close>

lemma corner_radius_cap_persists:
  "borderRadius (setOption tall_inset_option example_chart) = 10
   \<and> Ydis (setOption low_inset_option (setOption tall_inset_option example_chart)) / 4 = 35 / 2
   \<and> borderRadius (setOption low_inset_option (setOption tall_inset_option example_chart)) = 10"
proof -
  let ?c1 = "setOption tall_inset_option example_chart"
  note f1 = setOption_fields [of example_chart "[]" _ tall_inset_option, OF example_chart_fields(1,2)]
  have o1: "opt_axisXheight tall_inset_option = Some 140"
    "opt_borderRadius tall_inset_option = Some 100"
    by (simp_all add: tall_inset_option_def no_option_def)
  have o2: "opt_axisXheight low_inset_option = Some 20"
    "opt_borderRadius low_inset_option = None"
    by (simp_all add: low_inset_option_def no_option_def)
  have y1: "Ydis ?c1 = 40"
    by (simp add: f1(11) o1 or_keep_def)
  have b1: "borderRadius ?c1 = 10"
    by (simp add: f1(12) y1 o1 or_keep_def)
  from setOption_ctx [of example_chart "[]" _ tall_inset_option, OF example_chart_fields(1,2)]
  obtain g1 where g1: "ctx ?c1 = Some g1"
    by blast
  note f2 = setOption_fields [OF g1 f1(1), of low_inset_option]
  let ?c2 = "setOption low_inset_option ?c1"
  have y2: "Ydis ?c2 = 70"
    by (simp add: f2(11) o2 or_keep_def)
  have b2: "borderRadius ?c2 = 10"
    by (simp add: f2(12) y2 b1 o2 or_keep_def)
  from b1 y2 b2 show ?thesis by simp
qed

text \<open>
  Claim C9: a second \<^verbatim>\<open>setOption\<close> with the same option object, on the same canvas,
  leaves the same collection of blocks as the first: the same number of blocks and
  the same fields in each. (Before \<^verbatim>\<open>init\<close> both calls do nothing.)
\<close>

theorem setOption_idempotent:
  "children (setOption option (setOption option c)) = children (setOption option c)"
proof (cases "ctx c = None \<or> canvas c = None")
  case True
  then show ?thesis by (simp add: setOption_def)
next
  case False
  then obtain g s where gs: "ctx c = Some g" "canvas c = Some s"
    by auto
  let ?c1 = "setOption option c"
  let ?s1 = "s\<lparr> listeners := listeners s @ [(''click'', throttle 50), (''mousemove'', throttle 50)] \<rparr>"
  note f1 = setOption_fields [OF gs, of option]
  from setOption_ctx [OF gs, of option] obtain g1 where g1: "ctx ?c1 = Some g1"
    by blast
  have s1: "canvas ?c1 = Some ?s1"
    by (rule f1(1))
  note f2 = setOption_fields [OF g1 s1, of option]
  let ?c2 = "setOption option ?c1"
  have yd: "Ydis ?c2 = Ydis ?c1"
    by (simp add: f2(11) f1(11) f1(6))
  have br: "borderRadius ?c2 = borderRadius ?c1"
    by (simp add: f2(12) yd) (simp add: f1(12) or_keep_def split: option.splits)
  have "layout ?c2 (width ?s1) None (sleepData ?c2) = layout ?c1 (width ?s1) None (sleepData ?c2)"
  proof (rule layout_cong)
    show "axisYwidth ?c2 = axisYwidth ?c1" by (simp add: f2(5) f1(5))
    show "Xdis ?c2 = Xdis ?c1" by (simp add: f2(10) f1(10) f1(5) f1(7) f1(8))
    show "Ydis ?c2 = Ydis ?c1" by (rule yd)
    show "borderRadius ?c2 = borderRadius ?c1" by (rule br)
    show "lineWidth ?c2 = lineWidth ?c1" by (simp add: f2(9) f1(9))
    show "sleepColor ?c2 = sleepColor ?c1" by (simp add: f2(4) f1(4))
    show "sleepType ?c2 = sleepType ?c1" by (simp add: f2(3) f1(3))
  qed
  moreover have "sleepData ?c2 = sleepData ?c1"
    by (simp add: f2(2) f1(2))
  ultimately show ?thesis
    by (simp add: f2(13) f1(13))
qed

theorem setOption_idempotent_witness:
  "children (setOption example_option (setOption example_option example_chart))
     = children (setOption example_option example_chart)
   \<and> map startX (children (setOption example_option example_chart)) = [50, 325 / 2]
   \<and> map endX (children (setOption example_option example_chart)) = [325 / 2, 475 / 2]"
proof -
  let ?c = "setOption example_option example_chart"
  have f: "Xdis ?c = 15 / 16" "axisYwidth ?c = 50" "sleepData ?c = [(120, 0), (80, 1)]"
    by (simp_all add: setOption_fields [of example_chart "[]"] example_option_def no_option_def
        or_keep_def)
  have ch: "children ?c = map fst (layout ?c 800 None [(120, 0), (80, 1)])"
    using setOption_fields(13) [of example_chart "[]" _ example_option] by (simp add: f)
  have "map startX (children ?c) = [50, 325 / 2]" "map endX (children ?c) = [325 / 2, 475 / 2]"
    by (simp_all add: ch layout_Cons draw_item_block draw_item_carried f del: layout.simps(2))
  with setOption_idempotent [of example_option example_chart] show ?thesis by simp
qed

section \<open>The throttle\<close>


















lemma move_event_type [simp]: "etype move_event = Some ''mousemove''"
  by (simp add: move_event_def)


end
